theory Spec2Isabelle
  imports Complex_Main "HOL-Library.Sublist"
begin

section \<open>The transform cache of the hermes-transform plugin\<close>

text \<open>
  The development embeds the three closures that \<open>createHermesTransformPlugin\<close> sets up:
  \<open>getTransformedSourceFromCache\<close> (the lookup), \<open>transformSource\<close> (the transform and
  store step) and the \<open>build.onLoad\<close> callback that joins them. Every call of a
  collaborator (\<open>node:fs\<close>, the \<open>CacheManager\<close>, Babel, SWC) is an effect on an explicit
  \<open>world\<close>; a rejected promise or a thrown \<open>Error\<close> is the \<open>Inl\<close> branch of the result.
  Calls of \<open>logger.debug\<close> only print and are left out.
\<close>

subsection \<open>Data\<close>

text \<open>
  \<open>Error msg\<close> is a JavaScript \<open>Error\<close> with that message; \<open>IOError op\<close> is the
  rejection of the \<open>node:fs\<close> call \<open>op\<close>.
\<close>

datatype io_op = FsOpen | FsStat | FsReadFile | FsClose

datatype error = Error string | IOError io_op

text \<open>
  \<open>mtimeMs\<close> is a JavaScript number. \<open>stat\<close> yields finite numbers only, and the code
  does nothing with them but compare them with \<open>===\<close>, which on finite numbers is
  equality of the values; so they are rationals here.
\<close>

record File =
  mtimeMs :: rat
  content :: string

record Cache =
  data :: string
  modifiedAt :: rat

record OnLoadArgs =
  path :: string

record CustomTransformRule =
  rule_test :: "string \<Rightarrow> string \<Rightarrow> bool"
  rule_plugins :: "string list"

text \<open>The part of \<open>context.config\<close> that the plugin reads (\<open>config.transform\<close>, each list
  defaulting to the empty one).\<close>

record Config =
  stripFlowPackageNames :: "string list"
  fullyTransformPackageNames :: "string list"
  customTransformRules :: "CustomTransformRule list"

text \<open>\<open>[build.initialOptions.platform, context.config, args.path, mtimeMs]\<close>\<close>

type_synonym hashParam = "string option \<times> Config \<times> string \<times> rat"

record BabelOptions =
  babelrc :: bool
  plugins :: "string list option"

text \<open>The two tiers behind a \<open>CacheManager\<close>: the in-process table, the files under the
  cache root, and whether a write under the cache root goes through.\<close>

record Tiers =
  memory :: "string \<rightharpoonup> Cache"
  disk :: "string \<rightharpoonup> string"
  writable :: bool

text \<open>
  Modelled from the spec: the class \<open>CacheManager\<close> of \<open>@react-native-esbuild/core\<close> is
  not among the sources; only its five calls are. The plugin is therefore embedded over
  any implementation of these five operations, each of which may throw.
\<close>

record CacheManager =
  readFromMemory :: "Tiers \<Rightarrow> string \<Rightarrow> error + Cache option"
  writeToMemory :: "Tiers \<Rightarrow> string \<Rightarrow> Cache \<Rightarrow> error + Tiers"
  getCacheHash :: "hashParam \<Rightarrow> error + string"
  readFromFileSystem :: "Tiers \<Rightarrow> string \<Rightarrow> error + string option"
  writeToFileSystem :: "Tiers \<Rightarrow> string \<Rightarrow> string \<Rightarrow> error + Tiers"

text \<open>
  Modelled from the spec: the Memory Tier (section 4.2): \<open>read(key)\<close> gives the entry or
  absent and has no side effect; \<open>write(key, entry)\<close> overwrites unconditionally.
\<close>

definition MemoryTier_read :: "Tiers \<Rightarrow> string \<Rightarrow> Cache option" where
  "MemoryTier_read t key = memory t key"

definition MemoryTier_write :: "Tiers \<Rightarrow> string \<Rightarrow> Cache \<Rightarrow> Tiers" where
  "MemoryTier_write t key entry = t\<lparr>memory := (memory t)(key \<mapsto> entry)\<rparr>"

text \<open>
  Modelled from the spec: the Filesystem Tier (sections 4.3 and 7): \<open>read(hash)\<close> gives the
  content or absent, an I/O error on read being a normal miss; \<open>write(hash, content)\<close>
  writes under the cache root, and an I/O error on write is reported but not raised.
\<close>

definition FilesystemTier_read :: "Tiers \<Rightarrow> string \<Rightarrow> string option" where
  "FilesystemTier_read t h = disk t h"

definition FilesystemTier_write :: "Tiers \<Rightarrow> string \<Rightarrow> string \<Rightarrow> Tiers" where
  "FilesystemTier_write t h text =
     (if writable t then t\<lparr>disk := (disk t)(h \<mapsto> text)\<rparr> else t)"

text \<open>
  Modelled from the spec: the \<open>CacheManager\<close> that the spec describes, over a Content
  Hasher \<open>computeHash\<close> (section 4.1: pure, deterministic, no I/O). None of its
  operations throws.
\<close>

definition specCacheManager :: "(hashParam \<Rightarrow> string) \<Rightarrow> CacheManager" where
  "specCacheManager computeHash =
     \<lparr>readFromMemory = (\<lambda>t key. Inr (MemoryTier_read t key)),
      writeToMemory = (\<lambda>t key entry. Inr (MemoryTier_write t key entry)),
      getCacheHash = (\<lambda>p. Inr (computeHash p)),
      readFromFileSystem = (\<lambda>t h. Inr (FilesystemTier_read t h)),
      writeToFileSystem = (\<lambda>t h text. Inr (FilesystemTier_write t h text))\<rparr>"

text \<open>
  What \<open>setup\<close> closes over: the cache, \<open>context.bundlerConfig.dev\<close>,
  \<open>build.initialOptions.platform\<close>, \<open>context.config\<close>, and the collaborators that are not
  part of the plugin: \<open>RegExp.prototype.test\<close> (pattern, then subject), \<open>isFlow\<close>, and
  the two transformers.
\<close>

record Plugin =
  cache :: CacheManager
  cacheEnabled :: bool
  platform :: "string option"
  config :: Config
  regexp_test :: "string \<Rightarrow> string \<Rightarrow> bool"
  isFlow :: "string \<Rightarrow> string \<Rightarrow> bool"
  transformWithBabel :: "string \<Rightarrow> OnLoadArgs \<Rightarrow> BabelOptions \<Rightarrow> error + string"
  transformWithSwc :: "string \<Rightarrow> OnLoadArgs \<Rightarrow> error + string"

record LookupResult =
  contents :: string
  fromCache :: bool
  hash :: "string option"

record OnLoadResult =
  loaded_contents :: string
  loader :: string

subsection \<open>The world and its effects\<close>

text \<open>Every call of a collaborator is recorded, in order, whether it succeeds or not.\<close>

datatype event =
    Open string
  | Stat string
  | ReadFile string
  | Close string
  | ReadFromMemory string
  | WriteToMemory string Cache
  | GetCacheHash string rat
  | ReadFromFileSystem string
  | WriteToFileSystem string string
  | TransformWithBabel string BabelOptions
  | TransformWithSwc string

text \<open>
  \<open>files\<close> are the source files; \<open>faults\<close> the \<open>node:fs\<close> calls that are rejected;
  \<open>handles\<close> the paths of the file handles that are open; \<open>tiers\<close> the state of the
  cache.
\<close>

record world =
  files :: "string \<rightharpoonup> File"
  faults :: "io_op set"
  handles :: "string list"
  tiers :: Tiers
  trace :: "event list"

type_synonym 'a io = "world \<Rightarrow> (error + 'a) \<times> world"

definition resolve :: "'a \<Rightarrow> 'a io" where
  "resolve x w = (Inr x, w)"

definition throw :: "error \<Rightarrow> 'a io" where
  "throw e w = (Inl e, w)"

definition await :: "'a io \<Rightarrow> ('a \<Rightarrow> 'b io) \<Rightarrow> 'b io" where
  "await m k w = (case m w of (Inl e, w1) \<Rightarrow> (Inl e, w1) | (Inr x, w1) \<Rightarrow> k x w1)"

text \<open>\<open>try { body } finally { fin }\<close>: \<open>fin\<close> always runs, and an error it throws
  replaces the outcome of \<open>body\<close>.\<close>

definition try_finally :: "'a io \<Rightarrow> unit io \<Rightarrow> 'a io" where
  "try_finally body fin w =
     (case body w of (r, w1) \<Rightarrow>
        (case fin w1 of (Inl e, w2) \<Rightarrow> (Inl e, w2) | (Inr u, w2) \<Rightarrow> (r, w2)))"

definition log :: "event \<Rightarrow> world \<Rightarrow> world" where
  "log ev w = w\<lparr>trace := trace w @ [ev]\<rparr>"

text \<open>\<open>fs.open(path, 'r')\<close>; the handle is the path it was opened on.\<close>

definition fs_open :: "string \<Rightarrow> string io" where
  "fs_open p w =
     (if FsOpen \<in> faults w \<or> files w p = None then (Inl (IOError FsOpen), log (Open p) w)
      else (Inr p, log (Open p) (w\<lparr>handles := p # handles w\<rparr>)))"

definition FileHandle_stat :: "string \<Rightarrow> rat io" where
  "FileHandle_stat h w =
     (case files w h of
        None \<Rightarrow> (Inl (IOError FsStat), log (Stat h) w)
      | Some f \<Rightarrow> if FsStat \<in> faults w then (Inl (IOError FsStat), log (Stat h) w)
                  else (Inr (mtimeMs f), log (Stat h) w))"

definition FileHandle_readFile :: "string \<Rightarrow> string io" where
  "FileHandle_readFile h w =
     (case files w h of
        None \<Rightarrow> (Inl (IOError FsReadFile), log (ReadFile h) w)
      | Some f \<Rightarrow> if FsReadFile \<in> faults w then (Inl (IOError FsReadFile), log (ReadFile h) w)
                  else (Inr (content f), log (ReadFile h) w))"

definition FileHandle_close :: "string \<Rightarrow> unit io" where
  "FileHandle_close h w =
     (if FsClose \<in> faults w then (Inl (IOError FsClose), log (Close h) w)
      else (Inr (), log (Close h) (w\<lparr>handles := remove1 h (handles w)\<rparr>)))"

text \<open>The five calls on the plugin's \<open>cache\<close>.\<close>

definition cache_readFromMemory :: "Plugin \<Rightarrow> string \<Rightarrow> Cache option io" where
  "cache_readFromMemory pl key w =
     (readFromMemory (cache pl) (tiers w) key, log (ReadFromMemory key) w)"

definition cache_writeToMemory :: "Plugin \<Rightarrow> string \<Rightarrow> Cache \<Rightarrow> unit io" where
  "cache_writeToMemory pl key entry w =
     (case writeToMemory (cache pl) (tiers w) key entry of
        Inl e \<Rightarrow> (Inl e, log (WriteToMemory key entry) w)
      | Inr t \<Rightarrow> (Inr (), log (WriteToMemory key entry) (w\<lparr>tiers := t\<rparr>)))"

definition cache_getCacheHash :: "Plugin \<Rightarrow> hashParam \<Rightarrow> string io" where
  "cache_getCacheHash pl p w =
     (getCacheHash (cache pl) p, log (GetCacheHash (fst (snd (snd p))) (snd (snd (snd p)))) w)"

definition cache_readFromFileSystem :: "Plugin \<Rightarrow> string \<Rightarrow> string option io" where
  "cache_readFromFileSystem pl h w =
     (readFromFileSystem (cache pl) (tiers w) h, log (ReadFromFileSystem h) w)"

definition cache_writeToFileSystem :: "Plugin \<Rightarrow> string \<Rightarrow> string \<Rightarrow> unit io" where
  "cache_writeToFileSystem pl h text w =
     (case writeToFileSystem (cache pl) (tiers w) h text of
        Inl e \<Rightarrow> (Inl e, log (WriteToFileSystem h text) w)
      | Inr t \<Rightarrow> (Inr (), log (WriteToFileSystem h text) (w\<lparr>tiers := t\<rparr>)))"

definition babel :: "Plugin \<Rightarrow> string \<Rightarrow> OnLoadArgs \<Rightarrow> BabelOptions \<Rightarrow> string io" where
  "babel pl source args opts w =
     (transformWithBabel pl source args opts, log (TransformWithBabel source opts) w)"

definition swc :: "Plugin \<Rightarrow> string \<Rightarrow> OnLoadArgs \<Rightarrow> string io" where
  "swc pl source args w = (transformWithSwc pl source args, log (TransformWithSwc source) w)"

subsection \<open>getTransformedSourceFromCache\<close>

text \<open>\<open>`${args.path}${build.initialOptions.platform ?? ''}`\<close>\<close>

definition memoryCacheKey :: "string \<Rightarrow> string option \<Rightarrow> string" where
  "memoryCacheKey p plat = p @ (case plat of None \<Rightarrow> [] | Some s \<Rightarrow> s)"

text \<open>Step 3 of the lookup: read the original source.\<close>

definition readOriginal :: "string \<Rightarrow> string option \<Rightarrow> LookupResult io" where
  "readOriginal fileHandle h =
     await (FileHandle_readFile fileHandle) (\<lambda>raw.
       resolve \<lparr>contents = raw, fromCache = False, hash = h\<rparr>)"

text \<open>
  The \<open>try\<close> block once \<open>fs.open\<close> has given the handle. In the stale branch the object
  literal evaluates \<open>readFile\<close> before \<open>getCacheHash\<close>. \<open>if (cachedSource)\<close> is JavaScript
  truthiness of a string or absent value: absent and the empty string are both false.
\<close>

definition lookupWithHandle :: "Plugin \<Rightarrow> OnLoadArgs \<Rightarrow> string \<Rightarrow> LookupResult io" where
  "lookupWithHandle pl args fileHandle =
     (if cacheEnabled pl then
        await (FileHandle_stat fileHandle) (\<lambda>mtime.
        await (cache_readFromMemory pl (memoryCacheKey (path args) (platform pl))) (\<lambda>inMemoryCache.
          case inMemoryCache of
            Some c \<Rightarrow>
              if modifiedAt c = mtime
              then resolve \<lparr>contents = data c, fromCache = True, hash = None\<rparr>
              else await (FileHandle_readFile fileHandle) (\<lambda>raw.
                   await (cache_getCacheHash pl (platform pl, config pl, path args, mtime)) (\<lambda>h.
                     resolve \<lparr>contents = raw, fromCache = False, hash = Some h\<rparr>))
          | None \<Rightarrow>
              await (cache_getCacheHash pl (platform pl, config pl, path args, mtime)) (\<lambda>h.
              await (cache_readFromFileSystem pl h) (\<lambda>cachedSource.
                case cachedSource of
                  None \<Rightarrow> readOriginal fileHandle (Some h)
                | Some src \<Rightarrow>
                    if src \<noteq> []
                    then await (cache_writeToMemory pl (memoryCacheKey (path args) (platform pl))
                                  \<lparr>data = src, modifiedAt = mtime\<rparr>) (\<lambda>u.
                           resolve \<lparr>contents = src, fromCache = True, hash = None\<rparr>)
                    else readOriginal fileHandle (Some h)))))
      else readOriginal fileHandle None)"

text \<open>
  When \<open>fs.open\<close> is rejected, \<open>fileHandle\<close> is still \<open>null\<close> and \<open>fileHandle?.close()\<close> in
  the \<open>finally\<close> block does nothing.
\<close>

definition getTransformedSourceFromCache :: "Plugin \<Rightarrow> OnLoadArgs \<Rightarrow> LookupResult io" where
  "getTransformedSourceFromCache pl args w =
     (case fs_open (path args) w of
        (Inl e, w1) \<Rightarrow> (Inl e, w1)
      | (Inr fileHandle, w1) \<Rightarrow>
          try_finally (lookupWithHandle pl args fileHandle) (FileHandle_close fileHandle) w1)"

subsection \<open>transformSource\<close>

fun join :: "string \<Rightarrow> string list \<Rightarrow> string" where
  "join sep [] = []"
| "join sep [x] = x"
| "join sep (x # y # ys) = x @ sep @ join sep (y # ys)"

text \<open>\<open>names.length ? new RegExp(`node_modules/(${names.join('|')})/`) : undefined\<close>\<close>

definition packageNamesRegExp :: "string list \<Rightarrow> string option" where
  "packageNamesRegExp names =
     (if names \<noteq> [] then Some (''node_modules/('' @ join ''|'' names @ '')/'') else None)"

text \<open>\<open>regExp?.test(subject)\<close>, which is \<open>undefined\<close>, hence false, without a pattern.\<close>

definition optional_test :: "Plugin \<Rightarrow> string option \<Rightarrow> string \<Rightarrow> bool" where
  "optional_test pl re subject =
     (case re of None \<Rightarrow> False | Some pat \<Rightarrow> regexp_test pl pat subject)"

text \<open>The loop over \<open>customTransformRules\<close>.\<close>

fun applyCustomRules ::
  "Plugin \<Rightarrow> OnLoadArgs \<Rightarrow> CustomTransformRule list \<Rightarrow> string \<Rightarrow> string io" where
  "applyCustomRules pl args [] source w = (Inr source, w)"
| "applyCustomRules pl args (rule # rules) source w =
     (if rule_test rule (path args) source
      then (case babel pl source args \<lparr>babelrc = False, plugins = Some (rule_plugins rule)\<rparr> w of
              (Inl e, w1) \<Rightarrow> (Inl e, w1)
            | (Inr s, w1) \<Rightarrow> applyCustomRules pl args rules s w1)
      else applyCustomRules pl args rules source w)"

text \<open>The body of \<open>transformSource\<close> from \<open>let source = rawSource\<close> to the call of SWC.\<close>

definition applyTransforms :: "Plugin \<Rightarrow> OnLoadArgs \<Rightarrow> string \<Rightarrow> string io" where
  "applyTransforms pl args rawSource =
     await (if optional_test pl (packageNamesRegExp (fullyTransformPackageNames (config pl)))
                 (path args)
            then await (babel pl rawSource args \<lparr>babelrc = True, plugins = None\<rparr>)
                   (\<lambda>s. resolve (s, True))
            else resolve (rawSource, False)) (\<lambda>(source, fullyTransformed).
     await (if \<not> fullyTransformed \<and>
               (isFlow pl source (path args) \<or>
                optional_test pl (packageNamesRegExp (stripFlowPackageNames (config pl)))
                  (path args))
            then babel pl source args
                   \<lparr>babelrc = False,
                    plugins = Some [''@babel/plugin-syntax-flow'',
                                    ''@babel/plugin-transform-flow-strip-types'']\<rparr>
            else resolve source) (\<lambda>source.
     await (applyCustomRules pl args (customTransformRules (config pl)) source) (\<lambda>source.
       swc pl source args)))"

definition transformSource ::
  "Plugin \<Rightarrow> OnLoadArgs \<Rightarrow> string \<Rightarrow> string option \<Rightarrow> string io" where
  "transformSource pl args rawSource h =
     (case h of
        None \<Rightarrow> throw (Error ''hash is required for caching'')
      | Some hs \<Rightarrow>
          await (applyTransforms pl args rawSource) (\<lambda>source.
            if cacheEnabled pl
            then await (cache_writeToFileSystem pl hs source) (\<lambda>u. resolve source)
            else resolve source))"

subsection \<open>build.onLoad\<close>

text \<open>The filter \<open>/\.(?:[mc]js|[tj]sx?)$/\<close>: esbuild calls the callback on these paths only.\<close>

definition onLoad_filter :: "string \<Rightarrow> bool" where
  "onLoad_filter p =
     list_ex (\<lambda>ext. suffix ext p) [''.mjs'', ''.cjs'', ''.ts'', ''.tsx'', ''.js'', ''.jsx'']"

definition onLoad :: "Plugin \<Rightarrow> OnLoadArgs \<Rightarrow> OnLoadResult io" where
  "onLoad pl args =
     await (getTransformedSourceFromCache pl args) (\<lambda>r.
       if fromCache r
       then resolve \<lparr>loaded_contents = contents r, loader = ''js''\<rparr>
       else await (transformSource pl args (contents r) (hash r)) (\<lambda>s.
              resolve \<lparr>loaded_contents = s, loader = ''js''\<rparr>))"


subsection \<open>Vocabulary of the statements\<close>

fun is_transformer_call :: "event \<Rightarrow> bool" where
  "is_transformer_call (TransformWithBabel source opts) = True"
| "is_transformer_call (TransformWithSwc source) = True"
| "is_transformer_call ev = False"

text \<open>Nothing but the trace differs between two worlds.\<close>

definition unchanged :: "world \<Rightarrow> world \<Rightarrow> bool" where
  "unchanged w w' \<longleftrightarrow>
     files w' = files w \<and> faults w' = faults w \<and> handles w' = handles w \<and> tiers w' = tiers w"

definition keeps :: "'a io \<Rightarrow> bool" where
  "keeps m \<longleftrightarrow> (\<forall>w. unchanged w (snd (m w)))"

text \<open>
  The values that esbuild's option type admits for \<open>build.initialOptions.platform\<close>:
  unset, or one of three names.
\<close>

definition esbuildPlatforms :: "string option list" where
  "esbuildPlatforms = [None, Some ''browser'', Some ''node'', Some ''neutral'']"

subsection \<open>A concrete build\<close>

text \<open>
  The scenario of the specification: the file \<open>a.js\<close> with modification time \<open>T1 = 1\<close>,
  which hashes to \<open>H1\<close> (any other time to \<open>H2\<close>) and is transformed to \<open>const a=1;\<close>.
\<close>

definition exConfig :: Config where
  "exConfig =
     \<lparr>stripFlowPackageNames = [], fullyTransformPackageNames = [], customTransformRules = []\<rparr>"

definition exHash :: "hashParam \<Rightarrow> string" where
  "exHash p = (if snd (snd (snd p)) = 1 then ''H1'' else ''H2'')"

definition exPlugin :: Plugin where
  "exPlugin =
     \<lparr>cache = specCacheManager exHash, cacheEnabled = True, platform = None, config = exConfig,
      regexp_test = (\<lambda>pat subject. False), isFlow = (\<lambda>source p. False),
      transformWithBabel = (\<lambda>source args opts. Inr source),
      transformWithSwc = (\<lambda>source args. Inr (source @ '';''))\<rparr>"

definition exArgs :: OnLoadArgs where
  "exArgs = \<lparr>path = ''a.js''\<rparr>"

definition exTiers :: Tiers where
  "exTiers = \<lparr>memory = Map.empty, disk = Map.empty, writable = True\<rparr>"

definition exWorld :: world where
  "exWorld =
     \<lparr>files = [''a.js'' \<mapsto> \<lparr>mtimeMs = 1, content = ''const a=1''\<rparr>], faults = {},
      handles = [], tiers = exTiers, trace = []\<rparr>"

text \<open>The same build after \<open>a.js\<close> was cached in memory at time \<open>T1\<close>, and then touched.\<close>

definition exCached :: world where
  "exCached =
     exWorld\<lparr>tiers := exTiers\<lparr>memory := [''a.js'' \<mapsto> \<lparr>data = ''const a=1;'', modifiedAt = 1\<rparr>]\<rparr>\<rparr>"

definition exTouched :: world where
  "exTouched = exCached\<lparr>files := [''a.js'' \<mapsto> \<lparr>mtimeMs = 2, content = ''const a=2''\<rparr>]\<rparr>"

text \<open>A fresh process (empty Memory Tier) over a cache root that holds \<open>H1\<close>.\<close>

definition exRestarted :: world where
  "exRestarted = exWorld\<lparr>tiers := exTiers\<lparr>disk := [''H1'' \<mapsto> ''const a=1;'']\<rparr>\<rparr>"

text \<open>A cache root that rejects writes.\<close>

definition exReadOnly :: world where
  "exReadOnly = exWorld\<lparr>tiers := exTiers\<lparr>writable := False\<rparr>\<rparr>"

text \<open>
  A source file of comments only, a transformer whose output for it is the empty text, and
  the state of a fresh process after that output was stored.
\<close>

definition exStripPlugin :: Plugin where
  "exStripPlugin = exPlugin\<lparr>transformWithSwc := (\<lambda>source args. Inr [])\<rparr>"

definition exCommentWorld :: world where
  "exCommentWorld = exWorld\<lparr>files := [''a.js'' \<mapsto> \<lparr>mtimeMs = 1, content = ''// todo''\<rparr>]\<rparr>"

definition exStoredEmpty :: world where
  "exStoredEmpty = exCommentWorld\<lparr>tiers := exTiers\<lparr>disk := [''H1'' \<mapsto> []]\<rparr>\<rparr>"



section \<open>Properties\<close>

lemmas io_defs = await_def resolve_def throw_def try_finally_def log_def
lemmas fs_defs = fs_open_def FileHandle_stat_def FileHandle_readFile_def FileHandle_close_def
lemmas cache_defs = cache_readFromMemory_def cache_writeToMemory_def cache_getCacheHash_def
  cache_readFromFileSystem_def cache_writeToFileSystem_def
lemmas spec_defs = specCacheManager_def MemoryTier_read_def MemoryTier_write_def
  FilesystemTier_read_def FilesystemTier_write_def
lemmas lookup_defs = getTransformedSourceFromCache_def lookupWithHandle_def readOriginal_def
  memoryCacheKey_def io_defs fs_defs cache_defs spec_defs
lemmas transform_defs = onLoad_def transformSource_def applyTransforms_def
  packageNamesRegExp_def optional_test_def babel_def swc_def
lemmas ex_defs = exConfig_def exHash_def exPlugin_def exArgs_def exTiers_def exWorld_def
  exCached_def exTouched_def exRestarted_def exReadOnly_def exStripPlugin_def
  exCommentWorld_def exStoredEmpty_def

subsection \<open>What the lookup touches\<close>

text \<open>Whatever the cache does, the \<open>try\<close> block leaves the files and the open handles
  alone and calls no transformer.\<close>

lemma lookupWithHandle_frame:
  "lookupWithHandle pl args h w = (r, w') \<Longrightarrow>
     files w' = files w \<and> faults w' = faults w \<and> handles w' = handles w \<and>
     (\<exists>evs. trace w' = trace w @ evs \<and> (\<forall>ev \<in> set evs. \<not> is_transformer_call ev))"
  unfolding lookupWithHandle_def readOriginal_def io_defs fs_defs cache_defs
  by (auto split: prod.splits sum.splits option.splits if_splits)

lemma lookup_frame:
  "getTransformedSourceFromCache pl args w = (r, w') \<Longrightarrow>
     files w' = files w \<and> faults w' = faults w \<and>
     (\<exists>evs. trace w' = trace w @ evs \<and> (\<forall>ev \<in> set evs. \<not> is_transformer_call ev))"
  unfolding getTransformedSourceFromCache_def try_finally_def
  by (auto split: prod.splits sum.splits if_splits
        simp: fs_open_def FileHandle_close_def log_def dest!: lookupWithHandle_frame)

text \<open>With caching enabled, a miss always carries a hash.\<close>

lemma lookupWithHandle_miss_hash:
  "cacheEnabled pl \<Longrightarrow> lookupWithHandle pl args h w = (Inr r, w') \<Longrightarrow> \<not> fromCache r \<Longrightarrow>
     \<exists>hs. hash r = Some hs"
  unfolding lookupWithHandle_def readOriginal_def io_defs fs_defs cache_defs
  by (auto split: prod.splits sum.splits option.splits if_splits)

lemma lookup_miss_hash:
  "cacheEnabled pl \<Longrightarrow> getTransformedSourceFromCache pl args w = (Inr r, w') \<Longrightarrow>
     \<not> fromCache r \<Longrightarrow> \<exists>hs. hash r = Some hs"
  unfolding getTransformedSourceFromCache_def try_finally_def
  by (auto split: prod.splits sum.splits if_splits
        simp: fs_open_def FileHandle_close_def log_def dest: lookupWithHandle_miss_hash)

text \<open>With caching disabled, the \<open>try\<close> block only reads the file.\<close>

lemma lookupWithHandle_disabled:
  "\<not> cacheEnabled pl \<Longrightarrow> lookupWithHandle pl args h w = (r, w') \<Longrightarrow>
     tiers w' = tiers w \<and> (\<exists>evs. trace w' = trace w @ evs \<and> set evs \<subseteq> {ReadFile h}) \<and>
     (\<forall>x. r = Inr x \<longrightarrow>
        (\<exists>f. files w h = Some f \<and>
             x = \<lparr>contents = content f, fromCache = False, hash = None\<rparr>))"
  unfolding lookupWithHandle_def readOriginal_def io_defs fs_defs
  by (auto split: prod.splits sum.splits option.splits if_splits)

lemma lookup_disabled:
  assumes "\<not> cacheEnabled pl" and "getTransformedSourceFromCache pl args w = (r, w')"
  shows "tiers w' = tiers w \<and>
     (\<exists>evs. trace w' = trace w @ evs \<and>
         set evs \<subseteq> {Open (path args), ReadFile (path args), Close (path args)}) \<and>
     (\<forall>x. r = Inr x \<longrightarrow>
        (\<exists>f. files w (path args) = Some f \<and>
             x = \<lparr>contents = content f, fromCache = False, hash = None\<rparr>))"
  using assms(2) unfolding getTransformedSourceFromCache_def try_finally_def
  by (auto split: prod.splits sum.splits if_splits
        simp: fs_open_def FileHandle_close_def log_def
        dest!: lookupWithHandle_disabled[OF assms(1)])

lemma lookup_disabled_succeeds:
  assumes "\<not> cacheEnabled pl" and "files w (path args) = Some f" and "faults w = {}"
  shows "getTransformedSourceFromCache pl args w =
     (Inr \<lparr>contents = content f, fromCache = False, hash = None\<rparr>,
      w\<lparr>trace := trace w @ [Open (path args), ReadFile (path args), Close (path args)]\<rparr>)"
  using assms
  unfolding getTransformedSourceFromCache_def lookupWithHandle_def readOriginal_def
    io_defs fs_defs
  by simp

subsection \<open>What the transformers touch\<close>

lemma keepsD: "keeps m \<Longrightarrow> m w = (r, w') \<Longrightarrow> unchanged w w'"
  unfolding keeps_def by (metis snd_conv)

lemma keeps_resolve: "keeps (resolve x)"
  by (simp add: keeps_def resolve_def unchanged_def)

lemma keeps_await:
  assumes "keeps m" and "\<And>x. keeps (k x)"
  shows "keeps (await m k)"
  unfolding keeps_def
proof
  fix w
  obtain r w1 where M: "m w = (r, w1)" by force
  have U1: "unchanged w w1" using keepsD[OF assms(1) M] .
  show "unchanged w (snd (await m k w))"
  proof (cases r)
    case (Inl e)
    with M U1 show ?thesis by (simp add: await_def)
  next
    case (Inr x)
    obtain r2 w2 where K: "k x w1 = (r2, w2)" by force
    have "unchanged w1 w2" using keepsD[OF assms(2) K] .
    with U1 M Inr K show ?thesis by (simp add: await_def unchanged_def)
  qed
qed

lemma keeps_if: "keeps a \<Longrightarrow> keeps b \<Longrightarrow> keeps (if c then a else b)"
  by simp

lemma keeps_case_prod: "(\<And>a b. keeps (f a b)) \<Longrightarrow> keeps (case p of (a, b) \<Rightarrow> f a b)"
  by (cases p) simp

lemma keeps_babel: "keeps (babel pl s args opts)"
  by (simp add: keeps_def babel_def log_def unchanged_def)

lemma keeps_swc: "keeps (swc pl s args)"
  by (simp add: keeps_def swc_def log_def unchanged_def)

lemma keeps_applyCustomRules: "keeps (applyCustomRules pl args rules s)"
proof (induction rules arbitrary: s)
  case Nil
  show ?case by (simp add: keeps_def unchanged_def)
next
  case (Cons rule rules)
  show ?case
    unfolding keeps_def
  proof
    fix w
    let ?opts = "\<lparr>babelrc = False, plugins = Some (rule_plugins rule)\<rparr>"
    show "unchanged w (snd (applyCustomRules pl args (rule # rules) s w))"
    proof (cases "rule_test rule (path args) s")
      case False
      then show ?thesis using Cons.IH[of s] by (simp add: keeps_def)
    next
      case True
      obtain r w1 where B: "babel pl s args ?opts w = (r, w1)" by force
      have U1: "unchanged w w1" using keepsD[OF keeps_babel B] .
      show ?thesis
      proof (cases r)
        case (Inl e)
        with True B U1 show ?thesis by simp
      next
        case (Inr s1)
        have "unchanged w1 (snd (applyCustomRules pl args rules s1 w1))"
          using Cons.IH[of s1] by (simp add: keeps_def)
        with True B U1 Inr show ?thesis by (simp add: unchanged_def)
      qed
    qed
  qed
qed

lemma keeps_applyTransforms: "keeps (applyTransforms pl args raw)"
  unfolding applyTransforms_def
  by (intro keeps_await keeps_if keeps_case_prod keeps_swc keeps_applyCustomRules
        keeps_babel keeps_resolve)



subsection \<open>The file handle\<close>

text \<open>
  C10. On every path of the lookup, whatever the cache, the transformers and the file
  system do: if \<open>fs.open\<close> gave a handle, the last call the lookup makes is \<open>close\<close> on
  that handle, and unless \<open>close\<close> itself is rejected the open handles are afterwards
  those from before; if \<open>fs.open\<close> gave none, no handle is open afterwards that was not
  before, and the rejection of \<open>fs.open\<close> is the outcome.
\<close>

theorem file_handle_closed_on_every_path:
  assumes "getTransformedSourceFromCache pl args w = (r, w')"
  shows "if FsOpen \<notin> faults w \<and> files w (path args) \<noteq> None
         then trace w' \<noteq> [] \<and> last (trace w') = Close (path args) \<and>
              (FsClose \<notin> faults w \<longrightarrow> handles w' = handles w)
         else handles w' = handles w \<and> r = Inl (IOError FsOpen)"
  using assms unfolding getTransformedSourceFromCache_def try_finally_def
  by (auto split: prod.splits sum.splits if_splits
        simp: fs_open_def FileHandle_close_def log_def dest!: lookupWithHandle_frame)

text \<open>The handle is closed after a memory hit, after a rejected \<open>stat\<close>, and none is
  opened for a file that does not exist.\<close>

theorem file_handle_closed_on_every_path_witness:
  "(FsOpen \<notin> faults exCached \<and> files exCached (path exArgs) \<noteq> None \<and>
    FsClose \<notin> faults exCached \<and>
    last (trace (snd (getTransformedSourceFromCache exPlugin exArgs exCached))) = Close ''a.js'' \<and>
    handles (snd (getTransformedSourceFromCache exPlugin exArgs exCached)) = handles exCached) \<and>
   (fst (getTransformedSourceFromCache exPlugin exArgs (exWorld\<lparr>faults := {FsStat}\<rparr>))
      = Inl (IOError FsStat) \<and>
    handles (snd (getTransformedSourceFromCache exPlugin exArgs (exWorld\<lparr>faults := {FsStat}\<rparr>)))
      = []) \<and>
   (files exWorld ''b.js'' = None \<and>
    fst (getTransformedSourceFromCache exPlugin \<lparr>path = ''b.js''\<rparr> exWorld) = Inl (IOError FsOpen))"
proof -
  have A: "FsOpen \<notin> faults exCached \<and> files exCached (path exArgs) \<noteq> None \<and>
           FsClose \<notin> faults exCached"
    by (simp add: ex_defs)
  have B: "fst (getTransformedSourceFromCache exPlugin exArgs (exWorld\<lparr>faults := {FsStat}\<rparr>))
             = Inl (IOError FsStat)"
    by (simp add: ex_defs lookup_defs)
  have C: "files exWorld ''b.js'' = None \<and> handles exWorld = []"
    by (simp add: ex_defs)
  note T = file_handle_closed_on_every_path[OF prod.collapse[symmetric]]
  show ?thesis
    using A B C
      T[where pl = exPlugin and args = exArgs and w = exCached]
      T[where pl = exPlugin and args = exArgs and w = "exWorld\<lparr>faults := {FsStat}\<rparr>"]
      T[where pl = exPlugin and args = "\<lparr>path = ''b.js''\<rparr>" and w = exWorld]
    by (simp add: ex_defs)
qed

subsection \<open>Hits\<close>

text \<open>
  C9. Whenever the lookup reports \<open>fromCache\<close>, from either tier, the load returns the
  cached contents as they are, with loader \<open>js\<close>, and ends in the world the lookup left:
  nothing was called after the lookup, and the lookup calls no transformer.
\<close>

theorem cache_hit_skips_transformer:
  assumes "getTransformedSourceFromCache pl args w = (Inr r, w1)" and "fromCache r"
  shows "onLoad pl args w = (Inr \<lparr>loaded_contents = contents r, loader = ''js''\<rparr>, w1) \<and>
         (\<exists>evs. trace w1 = trace w @ evs \<and> (\<forall>ev \<in> set evs. \<not> is_transformer_call ev))"
  using assms lookup_frame[OF assms(1)] by (simp add: onLoad_def await_def resolve_def)

text \<open>Scenarios A and C: a hit in the Memory Tier and a hit in the Filesystem Tier.\<close>

theorem cache_hit_skips_transformer_witness:
  "(fst (getTransformedSourceFromCache exPlugin exArgs exCached)
      = Inr \<lparr>contents = ''const a=1;'', fromCache = True, hash = None\<rparr> \<and>
    fst (onLoad exPlugin exArgs exCached)
      = Inr \<lparr>loaded_contents = ''const a=1;'', loader = ''js''\<rparr>) \<and>
   (fst (getTransformedSourceFromCache exPlugin exArgs exRestarted)
      = Inr \<lparr>contents = ''const a=1;'', fromCache = True, hash = None\<rparr> \<and>
    fst (onLoad exPlugin exArgs exRestarted)
      = Inr \<lparr>loaded_contents = ''const a=1;'', loader = ''js''\<rparr>)"
proof -
  let ?hit = "\<lparr>contents = ''const a=1;'', fromCache = True, hash = None\<rparr>"
  have A: "fst (getTransformedSourceFromCache exPlugin exArgs exCached) = Inr ?hit"
    by (simp add: ex_defs lookup_defs)
  have B: "fst (getTransformedSourceFromCache exPlugin exArgs exRestarted) = Inr ?hit"
    by (simp add: ex_defs lookup_defs)
  have A': "getTransformedSourceFromCache exPlugin exArgs exCached =
              (Inr ?hit, snd (getTransformedSourceFromCache exPlugin exArgs exCached))"
    using A by (metis prod.collapse)
  have B': "getTransformedSourceFromCache exPlugin exArgs exRestarted =
              (Inr ?hit, snd (getTransformedSourceFromCache exPlugin exArgs exRestarted))"
    using B by (metis prod.collapse)
  show ?thesis
    using A B cache_hit_skips_transformer[OF A'] cache_hit_skips_transformer[OF B']
    by simp
qed

subsection \<open>Caching disabled\<close>

text \<open>
  C3. With caching disabled, a lookup that returns reports a miss without a hash; the
  transform step then throws \<open>hash is required for caching\<close> in the world the lookup
  left, so before any transformer has run; a lookup that fails passes its error on. In
  neither case does the load complete, and in neither is a transformer called.
\<close>

theorem disabled_cache_load_always_fails:
  assumes "\<not> cacheEnabled pl"
  shows "(case getTransformedSourceFromCache pl args w of
            (Inl e, w1) \<Rightarrow> onLoad pl args w = (Inl e, w1)
          | (Inr r, w1) \<Rightarrow>
              \<not> fromCache r \<and> hash r = None \<and>
              transformSource pl args (contents r) (hash r) w1
                = (Inl (Error ''hash is required for caching''), w1) \<and>
              onLoad pl args w = (Inl (Error ''hash is required for caching''), w1)) \<and>
         (\<forall>x. fst (onLoad pl args w) \<noteq> Inr x) \<and>
         (\<exists>evs. trace (snd (onLoad pl args w)) = trace w @ evs \<and>
                (\<forall>ev \<in> set evs. \<not> is_transformer_call ev))"
proof -
  obtain r w1 where L: "getTransformedSourceFromCache pl args w = (r, w1)" by force
  from lookup_disabled[OF assms L]
  have R: "\<And>x. r = Inr x \<Longrightarrow> \<not> fromCache x \<and> hash x = None" by auto
  from lookup_frame[OF L]
  have T: "\<exists>evs. trace w1 = trace w @ evs \<and> (\<forall>ev \<in> set evs. \<not> is_transformer_call ev)"
    by simp
  show ?thesis
  proof (cases r)
    case (Inl e)
    with L T show ?thesis by (simp add: onLoad_def await_def)
  next
    case (Inr x)
    with L T R[OF Inr] show ?thesis
      by (simp add: onLoad_def transformSource_def await_def throw_def)
  qed
qed

text \<open>The build of the scenario with caching switched off: the file is read, and the load
  fails.\<close>

theorem disabled_cache_load_always_fails_witness:
  "\<not> cacheEnabled (exPlugin\<lparr>cacheEnabled := False\<rparr>) \<and>
   fst (getTransformedSourceFromCache (exPlugin\<lparr>cacheEnabled := False\<rparr>) exArgs exWorld)
     = Inr \<lparr>contents = ''const a=1'', fromCache = False, hash = None\<rparr> \<and>
   fst (onLoad (exPlugin\<lparr>cacheEnabled := False\<rparr>) exArgs exWorld)
     = Inl (Error ''hash is required for caching'')"
proof -
  let ?pl = "exPlugin\<lparr>cacheEnabled := False\<rparr>"
  have D: "\<not> cacheEnabled ?pl" by (simp add: ex_defs)
  have L: "fst (getTransformedSourceFromCache ?pl exArgs exWorld)
             = Inr \<lparr>contents = ''const a=1'', fromCache = False, hash = None\<rparr>"
    by (simp add: ex_defs lookup_defs)
  show ?thesis
    using D L disabled_cache_load_always_fails[OF D, of exArgs exWorld]
    by (auto split: prod.splits sum.splits)
qed

text \<open>
  C4. With caching disabled, whatever the tiers hold and whatever the cache would do:
  the lookup leaves both tiers as they were and calls nothing but \<open>open\<close>, \<open>readFile\<close> and
  \<open>close\<close> on the source file, so that no tier is read or written; a result it returns
  is the miss with the file's content and no hash; and it does return when the file
  exists and no file operation is rejected.
\<close>

theorem disabled_lookup_bypasses_tiers:
  assumes "\<not> cacheEnabled pl" and "getTransformedSourceFromCache pl args w = (r, w')"
  shows "tiers w' = tiers w \<and>
         (\<exists>evs. trace w' = trace w @ evs \<and>
            set evs \<subseteq> {Open (path args), ReadFile (path args), Close (path args)}) \<and>
         (\<forall>x. r = Inr x \<longrightarrow>
            (\<exists>f. files w (path args) = Some f \<and>
                 x = \<lparr>contents = content f, fromCache = False, hash = None\<rparr>)) \<and>
         (\<forall>f. files w (path args) = Some f \<and> faults w = {} \<longrightarrow>
            r = Inr \<lparr>contents = content f, fromCache = False, hash = None\<rparr>)"
  using lookup_disabled[OF assms] lookup_disabled_succeeds[OF assms(1), of w args] assms(2)
  by auto

text \<open>Both tiers hold an entry for \<open>a.js\<close>; the disabled lookup returns the file.\<close>

theorem disabled_lookup_bypasses_tiers_witness:
  "\<not> cacheEnabled (exPlugin\<lparr>cacheEnabled := False\<rparr>) \<and>
   files exCached (path exArgs) = Some \<lparr>mtimeMs = 1, content = ''const a=1''\<rparr> \<and>
   faults exCached = {} \<and>
   MemoryTier_read (tiers exCached) ''a.js'' \<noteq> None \<and>
   fst (getTransformedSourceFromCache (exPlugin\<lparr>cacheEnabled := False\<rparr>) exArgs exCached)
     = Inr \<lparr>contents = ''const a=1'', fromCache = False, hash = None\<rparr> \<and>
   tiers (snd (getTransformedSourceFromCache (exPlugin\<lparr>cacheEnabled := False\<rparr>) exArgs exCached))
     = tiers exCached"
proof -
  let ?pl = "exPlugin\<lparr>cacheEnabled := False\<rparr>"
  have D: "\<not> cacheEnabled ?pl" by (simp add: ex_defs)
  have F: "files exCached (path exArgs) = Some \<lparr>mtimeMs = 1, content = ''const a=1''\<rparr> \<and>
           faults exCached = {} \<and> MemoryTier_read (tiers exCached) ''a.js'' \<noteq> None"
    by (simp add: ex_defs spec_defs)
  let ?L = "getTransformedSourceFromCache ?pl exArgs exCached"
  note T = disabled_lookup_bypasses_tiers[where pl = ?pl and args = exArgs and w = exCached,
      OF D prod.collapse[symmetric]]
  from T have T1: "tiers (snd ?L) = tiers exCached" by (rule conjunct1)
  from T F have T2: "fst ?L = Inr \<lparr>contents = content \<lparr>mtimeMs = 1, content = ''const a=1''\<rparr>,
      fromCache = False, hash = None\<rparr>"
    by blast
  from T2 have T3: "fst ?L = Inr \<lparr>contents = ''const a=1'', fromCache = False, hash = None\<rparr>"
    by simp
  show ?thesis
    using D F T1 T3 by blast
qed


subsection \<open>The Memory Tier check\<close>

text \<open>
  C2. Over the cache of the specification: a lookup that serves cached content leaves a
  Memory Tier entry for the file whose \<open>modifiedAt\<close> is the file's current modification
  time and whose data is the content served; either that very entry was there before the
  lookup, or none was and the content is the Filesystem Tier entry at the hash of the
  file's current modification time. Hence an entry recorded before an edit, once the edit
  has changed the modification time, is never served: the lookup is a miss and returns
  what the file holds now.
\<close>

theorem hit_requires_current_modification_time:
  assumes "cache pl = specCacheManager computeHash"
    and "getTransformedSourceFromCache pl args w = (Inr r, w')"
  shows "(fromCache r \<longrightarrow>
            (\<exists>f e. files w (path args) = Some f \<and>
               MemoryTier_read (tiers w') (memoryCacheKey (path args) (platform pl)) = Some e \<and>
               modifiedAt e = mtimeMs f \<and> data e = contents r \<and>
               (MemoryTier_read (tiers w) (memoryCacheKey (path args) (platform pl)) = Some e \<or>
                MemoryTier_read (tiers w) (memoryCacheKey (path args) (platform pl)) = None \<and>
                FilesystemTier_read (tiers w)
                  (computeHash (platform pl, config pl, path args, mtimeMs f))
                  = Some (contents r)))) \<and>
         (\<forall>f e. files w (path args) = Some f \<and>
               MemoryTier_read (tiers w) (memoryCacheKey (path args) (platform pl)) = Some e \<and>
               modifiedAt e \<noteq> mtimeMs f
            \<longrightarrow> \<not> fromCache r \<and> contents r = content f)"
  using assms
  unfolding getTransformedSourceFromCache_def lookupWithHandle_def readOriginal_def
    io_defs fs_defs cache_defs
  by (auto simp: spec_defs split: if_splits prod.splits sum.splits option.splits)

text \<open>Scenario A, the hit at time \<open>T1\<close>, and scenario B, the miss after the file was
  touched.\<close>

theorem hit_requires_current_modification_time_witness:
  "cache exPlugin = specCacheManager exHash \<and>
   getTransformedSourceFromCache exPlugin exArgs exCached
     = (Inr \<lparr>contents = ''const a=1;'', fromCache = True, hash = None\<rparr>,
        snd (getTransformedSourceFromCache exPlugin exArgs exCached)) \<and>
   (\<exists>f e. files exCached (path exArgs) = Some f \<and>
      MemoryTier_read (tiers exCached) (memoryCacheKey (path exArgs) (platform exPlugin)) = Some e \<and>
      modifiedAt e = mtimeMs f \<and> data e = ''const a=1;'') \<and>
   files exTouched (path exArgs) = Some \<lparr>mtimeMs = 2, content = ''const a=2''\<rparr> \<and>
   MemoryTier_read (tiers exTouched) (memoryCacheKey (path exArgs) (platform exPlugin))
     = Some \<lparr>data = ''const a=1;'', modifiedAt = 1\<rparr> \<and>
   (\<exists>x w'. getTransformedSourceFromCache exPlugin exArgs exTouched = (Inr x, w') \<and>
      \<not> fromCache x \<and> contents x = ''const a=2'')"
proof -
  let ?hit = "\<lparr>contents = ''const a=1;'', fromCache = True, hash = None\<rparr>"
  let ?miss = "\<lparr>contents = ''const a=2'', fromCache = False, hash = Some ''H2''\<rparr>"
  let ?f = "\<lparr>mtimeMs = 2, content = ''const a=2''\<rparr>"
  let ?e = "\<lparr>data = ''const a=1;'', modifiedAt = 1\<rparr>"
  let ?key = "memoryCacheKey (path exArgs) (platform exPlugin)"
  have S: "cache exPlugin = specCacheManager exHash" by (simp add: ex_defs)
  have A: "fst (getTransformedSourceFromCache exPlugin exArgs exCached) = Inr ?hit"
    by (simp add: ex_defs lookup_defs)
  have A': "getTransformedSourceFromCache exPlugin exArgs exCached =
              (Inr ?hit, snd (getTransformedSourceFromCache exPlugin exArgs exCached))"
    using A by (metis prod.collapse)
  have M0: "MemoryTier_read (tiers exCached) ?key \<noteq> None"
    by (simp add: ex_defs spec_defs memoryCacheKey_def)
  have H: "fromCache ?hit" "contents ?hit = ''const a=1;''" by simp_all
  from hit_requires_current_modification_time[OF S A', THEN conjunct1, rule_format, OF H(1)]
  obtain f e where P: "files exCached (path exArgs) = Some f"
      "modifiedAt e = mtimeMs f" "data e = contents ?hit"
      "MemoryTier_read (tiers exCached) ?key = Some e \<or>
       MemoryTier_read (tiers exCached) ?key = None"
    by blast
  from P(4) M0 have P4: "MemoryTier_read (tiers exCached) ?key = Some e" by blast
  have P1: "\<exists>f e. files exCached (path exArgs) = Some f \<and>
      MemoryTier_read (tiers exCached) ?key = Some e \<and>
      modifiedAt e = mtimeMs f \<and> data e = ''const a=1;''"
    using P(1) P4 P(2) P(3) unfolding H(2) by blast
  have F: "files exTouched (path exArgs) = Some ?f"
    and M: "MemoryTier_read (tiers exTouched) ?key = Some ?e"
    by (simp_all add: ex_defs spec_defs memoryCacheKey_def)
  have D: "modifiedAt ?e \<noteq> mtimeMs ?f" by simp
  have B: "fst (getTransformedSourceFromCache exPlugin exArgs exTouched) = Inr ?miss"
    by (simp add: ex_defs lookup_defs)
  have B': "getTransformedSourceFromCache exPlugin exArgs exTouched =
              (Inr ?miss, snd (getTransformedSourceFromCache exPlugin exArgs exTouched))"
    using B by (metis prod.collapse)
  from hit_requires_current_modification_time[OF S B', THEN conjunct2, rule_format,
      OF conjI[OF F conjI[OF M D]]]
  have Q: "\<not> fromCache ?miss \<and> contents ?miss = content ?f" .
  then have Q': "\<not> fromCache ?miss \<and> contents ?miss = ''const a=2''" by simp
  have P2: "\<exists>x w'. getTransformedSourceFromCache exPlugin exArgs exTouched = (Inr x, w') \<and>
      \<not> fromCache x \<and> contents x = ''const a=2''"
    using B' Q' by blast
  from S A' P1 F M P2 show ?thesis by (intro conjI)
qed

text \<open>
  C5. Over the cache of the specification, with caching enabled: when the Memory Tier
  holds an entry for the file whose \<open>modifiedAt\<close> differs from the file's modification
  time, the lookup leaves both tiers as they were, so the stale entry stays in place;
  it does not read the Filesystem Tier; a result it returns is the miss with the file's
  content and the hash of the current state; and it does return when no file operation
  is rejected.
\<close>

theorem stale_entry_lookup_is_miss:
  assumes "cache pl = specCacheManager computeHash" and "cacheEnabled pl"
    and "files w (path args) = Some f"
    and "MemoryTier_read (tiers w) (memoryCacheKey (path args) (platform pl)) = Some e"
    and "modifiedAt e \<noteq> mtimeMs f"
    and "getTransformedSourceFromCache pl args w = (r, w')"
  shows "tiers w' = tiers w \<and>
         MemoryTier_read (tiers w') (memoryCacheKey (path args) (platform pl)) = Some e \<and>
         (\<exists>evs. trace w' = trace w @ evs \<and> (\<forall>h. ReadFromFileSystem h \<notin> set evs)) \<and>
         (\<forall>x. r = Inr x \<longrightarrow>
            x = \<lparr>contents = content f, fromCache = False,
                 hash = Some (computeHash (platform pl, config pl, path args, mtimeMs f))\<rparr>) \<and>
         (faults w = {} \<longrightarrow> (\<exists>x. r = Inr x))"
  using assms
  unfolding getTransformedSourceFromCache_def lookupWithHandle_def readOriginal_def
    io_defs fs_defs cache_defs
  by (auto simp: spec_defs split: if_splits prod.splits sum.splits)

text \<open>Scenario B: \<open>a.js\<close> touched after it was cached; the miss carries \<open>H2\<close>.\<close>

theorem stale_entry_lookup_is_miss_witness:
  "cache exPlugin = specCacheManager exHash \<and> cacheEnabled exPlugin \<and> faults exTouched = {} \<and>
   files exTouched (path exArgs) = Some \<lparr>mtimeMs = 2, content = ''const a=2''\<rparr> \<and>
   MemoryTier_read (tiers exTouched) (memoryCacheKey (path exArgs) (platform exPlugin))
     = Some \<lparr>data = ''const a=1;'', modifiedAt = 1\<rparr> \<and>
   fst (getTransformedSourceFromCache exPlugin exArgs exTouched)
     = Inr \<lparr>contents = ''const a=2'', fromCache = False, hash = Some ''H2''\<rparr> \<and>
   tiers (snd (getTransformedSourceFromCache exPlugin exArgs exTouched)) = tiers exTouched"
proof -
  let ?f = "\<lparr>mtimeMs = 2, content = ''const a=2''\<rparr>"
  let ?e = "\<lparr>data = ''const a=1;'', modifiedAt = 1\<rparr>"
  let ?L = "getTransformedSourceFromCache exPlugin exArgs exTouched"
  have S: "cache exPlugin = specCacheManager exHash" and E: "cacheEnabled exPlugin"
    and N: "faults exTouched = {}"
    by (simp_all add: ex_defs)
  have F: "files exTouched (path exArgs) = Some ?f"
    and M: "MemoryTier_read (tiers exTouched) (memoryCacheKey (path exArgs) (platform exPlugin))
              = Some ?e"
    by (simp_all add: ex_defs spec_defs memoryCacheKey_def)
  have D: "modifiedAt ?e \<noteq> mtimeMs ?f" by simp
  note T = stale_entry_lookup_is_miss[OF S E F M D prod.collapse[symmetric]]
  from T have T1: "tiers (snd ?L) = tiers exTouched" by (rule conjunct1)
  from T N obtain x where X: "fst ?L = Inr x" by blast
  with T have "x = \<lparr>contents = content ?f, fromCache = False,
      hash = Some (exHash (platform exPlugin, config exPlugin, path exArgs, mtimeMs ?f))\<rparr>"
    by blast
  then have "x = \<lparr>contents = ''const a=2'', fromCache = False, hash = Some ''H2''\<rparr>"
    by (simp add: exHash_def)
  with X S E N F M T1 show ?thesis by simp
qed


subsection \<open>The Filesystem Tier check\<close>

text \<open>
  Over the cache of the specification, with caching enabled, an empty Memory Tier slot
  and a Filesystem Tier entry of at least one character at the hash of the file's current
  state: the lookup returns that entry, writes it to the Memory Tier under the file's
  current modification time, and a second lookup is answered from the Memory Tier.
\<close>

lemma promotion_of_nonempty_entry:
  assumes "cache pl = specCacheManager computeHash" and "cacheEnabled pl"
    and "files w (path args) = Some f" and "faults w = {}"
    and "MemoryTier_read (tiers w) (memoryCacheKey (path args) (platform pl)) = None"
    and "FilesystemTier_read (tiers w)
           (computeHash (platform pl, config pl, path args, mtimeMs f)) = Some src"
    and "src \<noteq> []"
  shows "\<exists>w1 w2.
     getTransformedSourceFromCache pl args w
       = (Inr \<lparr>contents = src, fromCache = True, hash = None\<rparr>, w1) \<and>
     MemoryTier_read (tiers w1) (memoryCacheKey (path args) (platform pl))
       = Some \<lparr>data = src, modifiedAt = mtimeMs f\<rparr> \<and>
     getTransformedSourceFromCache pl args w1
       = (Inr \<lparr>contents = src, fromCache = True, hash = None\<rparr>, w2) \<and>
     trace w2 = trace w1 @
       [Open (path args), Stat (path args),
        ReadFromMemory (memoryCacheKey (path args) (platform pl)), Close (path args)]"
proof -
  let ?key = "memoryCacheKey (path args) (platform pl)"
  let ?hit = "\<lparr>contents = src, fromCache = True, hash = None\<rparr>"
  define w1 where "w1 = snd (getTransformedSourceFromCache pl args w)"
  have L1: "getTransformedSourceFromCache pl args w = (Inr ?hit, w1)"
    and M1: "MemoryTier_read (tiers w1) ?key = Some \<lparr>data = src, modifiedAt = mtimeMs f\<rparr>"
    and F1: "files w1 (path args) = Some f" "faults w1 = {}"
    using assms unfolding w1_def
    by (simp_all add: getTransformedSourceFromCache_def lookupWithHandle_def
          readOriginal_def io_defs fs_defs cache_defs spec_defs)
  define w2 where "w2 = snd (getTransformedSourceFromCache pl args w1)"
  have L2: "getTransformedSourceFromCache pl args w1 = (Inr ?hit, w2)"
    and T2: "trace w2 = trace w1 @
       [Open (path args), Stat (path args), ReadFromMemory ?key, Close (path args)]"
    using assms(1,2) M1 F1 unfolding w2_def
    by (simp_all add: getTransformedSourceFromCache_def lookupWithHandle_def
          readOriginal_def io_defs fs_defs cache_defs spec_defs)
  from L1 M1 L2 T2 show ?thesis by blast
qed

text \<open>
  C6. The promotion fails for an entry that is the empty text. The load of a file whose
  transformed text is empty stores the empty text at \<open>H1\<close>. In a fresh process, where
  the Memory Tier is empty and the Filesystem Tier holds that entry at the hash of the
  file's current state, the lookup reports a miss with the raw source, writes nothing to
  the Memory Tier, and the load runs the transformer again.
\<close>

theorem empty_filesystem_entry_not_promoted:
  "tiers (snd (onLoad exStripPlugin exArgs exCommentWorld)) = tiers exStoredEmpty \<and>
   files exStoredEmpty (path exArgs) = Some \<lparr>mtimeMs = 1, content = ''// todo''\<rparr> \<and>
   FilesystemTier_read (tiers exStoredEmpty)
     (exHash (platform exStripPlugin, config exStripPlugin, path exArgs, 1)) = Some [] \<and>
   MemoryTier_read (tiers exStoredEmpty) (memoryCacheKey (path exArgs) (platform exStripPlugin))
     = None \<and>
   fst (getTransformedSourceFromCache exStripPlugin exArgs exStoredEmpty)
     = Inr \<lparr>contents = ''// todo'', fromCache = False, hash = Some ''H1''\<rparr> \<and>
   MemoryTier_read (tiers (snd (getTransformedSourceFromCache exStripPlugin exArgs exStoredEmpty)))
     (memoryCacheKey (path exArgs) (platform exStripPlugin)) = None \<and>
   TransformWithSwc ''// todo'' \<in> set (trace (snd (onLoad exStripPlugin exArgs exStoredEmpty)))"
  by (simp add: ex_defs lookup_defs transform_defs)

subsection \<open>The store\<close>

text \<open>
  C1 (as stated, refuted). The first load of \<open>a.js\<close> completes its store of
  \<open>const a=1;\<close> at \<open>H1\<close>; the Filesystem Tier then holds the text, but the Memory Tier
  read for the file is still absent. And after the store that follows the touched file's
  miss, the Memory Tier read still gives the text of the earlier version.
\<close>

theorem store_leaves_memory_tier_counterexample:
  "fst (transformSource exPlugin exArgs ''const a=1'' (Some ''H1'') exWorld)
     = Inr ''const a=1;'' \<and>
   FilesystemTier_read
     (tiers (snd (transformSource exPlugin exArgs ''const a=1'' (Some ''H1'') exWorld))) ''H1''
     = Some ''const a=1;'' \<and>
   MemoryTier_read
     (tiers (snd (transformSource exPlugin exArgs ''const a=1'' (Some ''H1'') exWorld)))
     (memoryCacheKey (path exArgs) (platform exPlugin)) = None \<and>
   fst (transformSource exPlugin exArgs ''const a=2'' (Some ''H2'') exTouched)
     = Inr ''const a=2;'' \<and>
   MemoryTier_read
     (tiers (snd (transformSource exPlugin exArgs ''const a=2'' (Some ''H2'') exTouched)))
     (memoryCacheKey (path exArgs) (platform exPlugin))
     = Some \<lparr>data = ''const a=1;'', modifiedAt = 1\<rparr>"
  by (simp add: ex_defs transform_defs memoryCacheKey_def io_defs cache_defs spec_defs)

text \<open>
  C1 (amended). Over the cache of the specification, with caching enabled and the cache
  root accepting the write: after the store completes, the Filesystem Tier read for the
  hash returns the stored text. The store does not write the Memory Tier: every Memory
  Tier read returns what it returned before the store.
\<close>

theorem store_writes_filesystem_tier_only:
  assumes "cache pl = specCacheManager computeHash" and "cacheEnabled pl"
    and "writable (tiers w)"
    and "transformSource pl args rawSource (Some h) w = (Inr text, w')"
  shows "FilesystemTier_read (tiers w') h = Some text \<and>
         (\<forall>key. MemoryTier_read (tiers w') key = MemoryTier_read (tiers w) key)"
proof -
  obtain r w1 where A: "applyTransforms pl args rawSource w = (r, w1)" by force
  have U: "unchanged w w1" using keepsD[OF keeps_applyTransforms A] .
  from assms(4) A obtain s where R: "r = Inr s"
    by (cases r) (simp_all add: transformSource_def await_def)
  from assms A R U show ?thesis
    by (auto simp: transformSource_def await_def resolve_def cache_writeToFileSystem_def
          log_def spec_defs unchanged_def)
qed

theorem store_writes_filesystem_tier_only_witness:
  "cache exPlugin = specCacheManager exHash \<and> cacheEnabled exPlugin \<and>
   writable (tiers exWorld) \<and>
   transformSource exPlugin exArgs ''const a=1'' (Some ''H1'') exWorld
     = (Inr ''const a=1;'',
        snd (transformSource exPlugin exArgs ''const a=1'' (Some ''H1'') exWorld)) \<and>
   FilesystemTier_read
     (tiers (snd (transformSource exPlugin exArgs ''const a=1'' (Some ''H1'') exWorld))) ''H1''
     = Some ''const a=1;''"
proof -
  let ?T = "transformSource exPlugin exArgs ''const a=1'' (Some ''H1'') exWorld"
  have S: "cache exPlugin = specCacheManager exHash" and E: "cacheEnabled exPlugin"
    and W: "writable (tiers exWorld)"
    by (simp_all add: ex_defs)
  have A: "fst ?T = Inr ''const a=1;''"
    by (simp add: ex_defs transform_defs io_defs cache_defs spec_defs)
  have A': "?T = (Inr ''const a=1;'', snd ?T)"
    using A by (metis prod.collapse)
  from store_writes_filesystem_tier_only[OF S E W A', THEN conjunct1]
  have "FilesystemTier_read (tiers (snd ?T)) ''H1'' = Some ''const a=1;''" .
  with S E W A' show ?thesis by (intro conjI)
qed

text \<open>
  C8. Over the cache of the specification, whose Filesystem Tier reports a failed write
  without raising: when a store follows a miss and the cache root rejects the write, the
  transform step still returns the text the transformers produced, the load returns it
  with loader \<open>js\<close>, and the tiers are left as they were.
\<close>

theorem filesystem_write_failure_nonfatal:
  assumes "cache pl = specCacheManager computeHash" and "cacheEnabled pl"
    and "getTransformedSourceFromCache pl args w = (Inr r, w0)" and "\<not> fromCache r"
    and "\<not> writable (tiers w0)"
    and "applyTransforms pl args (contents r) w0 = (Inr text, w1)"
  shows "\<exists>h. hash r = Some h \<and>
           transformSource pl args (contents r) (hash r) w0
             = (Inr text, log (WriteToFileSystem h text) w1) \<and>
           onLoad pl args w
             = (Inr \<lparr>loaded_contents = text, loader = ''js''\<rparr>,
                log (WriteToFileSystem h text) w1) \<and>
           tiers (log (WriteToFileSystem h text) w1) = tiers w0"
proof -
  from lookup_miss_hash[OF assms(2,3,4)] obtain h where H: "hash r = Some h" by blast
  have U: "unchanged w0 w1" using keepsD[OF keeps_applyTransforms assms(6)] .
  have T: "transformSource pl args (contents r) (hash r) w0
             = (Inr text, log (WriteToFileSystem h text) w1)"
    using assms(1,2,5,6) H U
    by (simp add: transformSource_def await_def resolve_def cache_writeToFileSystem_def
          log_def spec_defs unchanged_def)
  have O: "onLoad pl args w
             = (Inr \<lparr>loaded_contents = text, loader = ''js''\<rparr>,
                log (WriteToFileSystem h text) w1)"
    using assms(3,4) T by (simp add: onLoad_def await_def resolve_def)
  have K: "tiers (log (WriteToFileSystem h text) w1) = tiers w0"
    using U by (simp add: log_def unchanged_def)
  from H T O K show ?thesis by blast
qed

text \<open>
  The transform step has no handler of its own around the write: were an implementation
  of the cache to reject it, the rejection would be the outcome of the step.
\<close>

lemma transformSource_passes_on_write_rejection:
  assumes "cacheEnabled pl" and "applyTransforms pl args rawSource w = (Inr text, w1)"
    and "writeToFileSystem (cache pl) (tiers w1) h text = Inl e"
  shows "fst (transformSource pl args rawSource (Some h) w) = Inl e"
  using assms
  by (simp add: transformSource_def await_def cache_writeToFileSystem_def)

text \<open>The first load of \<open>a.js\<close> over a cache root that rejects writes.\<close>

theorem filesystem_write_failure_nonfatal_witness:
  "cache exPlugin = specCacheManager exHash \<and> cacheEnabled exPlugin \<and>
   \<not> writable (tiers exReadOnly) \<and>
   fst (getTransformedSourceFromCache exPlugin exArgs exReadOnly)
     = Inr \<lparr>contents = ''const a=1'', fromCache = False, hash = Some ''H1''\<rparr> \<and>
   fst (onLoad exPlugin exArgs exReadOnly)
     = Inr \<lparr>loaded_contents = ''const a=1;'', loader = ''js''\<rparr>"
proof -
  let ?miss = "\<lparr>contents = ''const a=1'', fromCache = False, hash = Some ''H1''\<rparr>"
  let ?L = "getTransformedSourceFromCache exPlugin exArgs exReadOnly"
  let ?A = "applyTransforms exPlugin exArgs (contents ?miss) (snd ?L)"
  have S: "cache exPlugin = specCacheManager exHash" and E: "cacheEnabled exPlugin"
    and W: "\<not> writable (tiers exReadOnly)"
    by (simp_all add: ex_defs)
  have L: "fst ?L = Inr ?miss"
    by (simp add: ex_defs lookup_defs)
  have L': "?L = (Inr ?miss, snd ?L)"
    using L by (metis prod.collapse)
  have N: "\<not> fromCache ?miss" by simp
  have W0: "\<not> writable (tiers (snd ?L))"
    by (simp add: ex_defs lookup_defs)
  have A: "fst ?A = Inr ''const a=1;''"
    by (simp add: ex_defs transform_defs io_defs)
  have A': "?A = (Inr ''const a=1;'', snd ?A)"
    using A by (metis prod.collapse)
  from filesystem_write_failure_nonfatal[OF S E L' N W0 A']
  have "fst (onLoad exPlugin exArgs exReadOnly)
          = Inr \<lparr>loaded_contents = ''const a=1;'', loader = ''js''\<rparr>"
    by force
  with S E W L show ?thesis by (intro conjI)
qed

subsection \<open>The Memory Tier key\<close>

lemma onLoad_filter_last:
  "onLoad_filter p \<Longrightarrow> p \<noteq> [] \<and> (last p = CHR ''s'' \<or> last p = CHR ''x'')"
  unfolding onLoad_filter_def by (auto simp: suffix_def)

lemma memoryCacheKey_last:
  assumes "onLoad_filter p" and "plat \<in> set esbuildPlatforms"
  shows "last (memoryCacheKey p plat) =
           (if plat = None then last p else if plat = Some ''browser'' then CHR ''r''
            else if plat = Some ''node'' then CHR ''e'' else CHR ''l'')"
  using assms onLoad_filter_last[OF assms(1)]
  by (auto simp: esbuildPlatforms_def memoryCacheKey_def)

lemma memoryCacheKey_same_platform:
  "memoryCacheKey p1 plat = memoryCacheKey p2 plat \<Longrightarrow> p1 = p2"
  by (simp add: memoryCacheKey_def)

lemma memoryCacheKey_platform:
  assumes "onLoad_filter p1" and "onLoad_filter p2"
    and "plat1 \<in> set esbuildPlatforms" and "plat2 \<in> set esbuildPlatforms"
    and "memoryCacheKey p1 plat1 = memoryCacheKey p2 plat2"
  shows "plat1 = plat2"
proof -
  have "last (memoryCacheKey p1 plat1) = last (memoryCacheKey p2 plat2)"
    using assms(5) by simp
  then show ?thesis
    using onLoad_filter_last[OF assms(1)] onLoad_filter_last[OF assms(2)] assms(3,4)
    unfolding memoryCacheKey_last[OF assms(1,3)] memoryCacheKey_last[OF assms(2,4)]
    by (auto simp: esbuildPlatforms_def split: if_splits)
qed

text \<open>
  The key is the path with the platform appended and nothing between them. The two
  hypotheses on the inputs below are therefore needed: a path that ends in a platform name
  shares its key with the shorter path under that platform, and the empty platform
  shares its key with the unset one. Neither input reaches the lookup: the first pair of
  paths does not pass the filter of the load callback, and the empty string is no value
  of esbuild's platform option.
\<close>

lemma memoryCacheKey_collision_outside_domain:
  "(''src/a'', Some ''node'') \<noteq> (''src/anode'', None :: string option) \<and>
   memoryCacheKey ''src/a'' (Some ''node'') = memoryCacheKey ''src/anode'' None \<and>
   \<not> onLoad_filter ''src/a'' \<and> \<not> onLoad_filter ''src/anode'' \<and>
   (''a.js'', Some []) \<noteq> (''a.js'', None :: string option) \<and>
   memoryCacheKey ''a.js'' (Some []) = memoryCacheKey ''a.js'' None \<and>
   Some [] \<notin> set esbuildPlatforms"
  by (simp add: memoryCacheKey_def onLoad_filter_def esbuildPlatforms_def suffix_def)

text \<open>
  C7. Two distinct pairs of file path and platform, as the lookup receives them, derive
  distinct Memory Tier keys: the paths are those that pass the filter of the load
  callback, and the platforms are the values of esbuild's platform option. And under one
  and the same platform, of any spelling, distinct paths always derive distinct keys.
\<close>

theorem memoryCacheKey_distinct:
  "(onLoad_filter p1 \<and> onLoad_filter p2 \<and> plat1 \<in> set esbuildPlatforms \<and>
    plat2 \<in> set esbuildPlatforms \<and> (p1, plat1) \<noteq> (p2, plat2)
      \<longrightarrow> memoryCacheKey p1 plat1 \<noteq> memoryCacheKey p2 plat2) \<and>
   (p1 \<noteq> p2 \<longrightarrow> memoryCacheKey p1 plat \<noteq> memoryCacheKey p2 plat)"
  using memoryCacheKey_platform[of p1 p2 plat1 plat2]
    memoryCacheKey_same_platform[of p1 plat1 p2] memoryCacheKey_same_platform[of p1 plat p2]
  by auto

text \<open>Two files under two platforms of esbuild, and two files under one platform.\<close>

theorem memoryCacheKey_distinct_witness:
  "onLoad_filter ''a.js'' \<and> onLoad_filter ''a.ts'' \<and> Some ''node'' \<in> set esbuildPlatforms \<and>
   None \<in> set esbuildPlatforms \<and> (''a.js'', Some ''node'') \<noteq> (''a.ts'', None) \<and>
   memoryCacheKey ''a.js'' (Some ''node'') \<noteq> memoryCacheKey ''a.ts'' None \<and>
   ''a.js'' \<noteq> ''b.js'' \<and>
   memoryCacheKey ''a.js'' (Some ''ios'') \<noteq> memoryCacheKey ''b.js'' (Some ''ios'')"
proof -
  have F: "onLoad_filter ''a.js''" "onLoad_filter ''a.ts''"
    by (simp_all add: onLoad_filter_def suffix_def)
  have P: "Some ''node'' \<in> set esbuildPlatforms" "None \<in> set esbuildPlatforms"
    by (simp_all add: esbuildPlatforms_def)
  have D: "(''a.js'', Some ''node'') \<noteq> (''a.ts'', None :: string option)" "''a.js'' \<noteq> ''b.js''"
    by simp_all
  note T = memoryCacheKey_distinct[where ?p1.0 = "''a.js''" and plat = "Some ''ios''"]
  from T[where ?p2.0 = "''a.ts''" and ?plat1.0 = "Some ''node''" and ?plat2.0 = None] F P D(1)
  have K1: "memoryCacheKey ''a.js'' (Some ''node'') \<noteq> memoryCacheKey ''a.ts'' None"
    by blast
  from T[where ?p2.0 = "''b.js''" and ?plat1.0 = None and ?plat2.0 = None] D(2)
  have K2: "memoryCacheKey ''a.js'' (Some ''ios'') \<noteq> memoryCacheKey ''b.js'' (Some ''ios'')"
    by blast
  from F P D(1) K1 D(2) K2 show ?thesis by (intro conjI)
qed


end
